theory Spec2Isabelle
  imports Main "HOL-Library.Sublist" "HOL-Library.AList"
begin

section \<open>Data model (src/types/index.ts)\<close>

text \<open>
  The TypeScript interfaces become records. Field names carry a prefix (\<open>u_\<close> for
  \<open>User\<close>, \<open>p_\<close> for \<open>Project\<close>, \<open>a_\<close> for \<open>AuthContext\<close>) because the interfaces share
  field names (\<open>id\<close>, \<open>name\<close>, \<open>createdAt\<close>, \<open>updatedAt\<close>) and the source uses
  \<open>userId\<close>, \<open>user\<close> and \<open>sessionId\<close> as local variables too.

  A role and a project status are strings at run time (the unions \<open>UserRole\<close> and
  \<open>ProjectStatus\<close> exist only for the type checker), so they are strings here; the
  values of the union \<open>UserRole\<close> are listed under that name. Strings are compared, split
  and measured by code unit only, so \<open>string\<close> stands for the JavaScript string.

  The optional field \<open>avatarUrl\<close> has three states at run time: the key is absent, it is
  \<open>null\<close> (the update schema is \<open>nullable\<close>), or it holds a string.
\<close>

datatype Nullable = Absent | Null | Str string

record User =
  u_id :: string
  u_email :: string
  u_name :: string
  u_role :: string
  u_avatarUrl :: Nullable
  u_createdAt :: string
  u_updatedAt :: string

definition UserRole :: "string list" where
  "UserRole = [''admin'', ''member'', ''viewer'']"

record Project =
  p_id :: string
  p_name :: string
  p_description :: string
  p_ownerId :: string
  p_status :: string
  p_createdAt :: string
  p_updatedAt :: string

record AuthContext =
  a_userId :: string
  a_user :: User
  a_sessionId :: string

text \<open>
  The in-memory database (\<open>interface Database\<close>): two JavaScript \<open>Map\<close>s. A \<open>Map\<close> keeps
  its entries in insertion order, \<open>set\<close> on a present key replaces the value in place and
  on a new key appends, \<open>delete\<close> removes the entry; \<open>values()\<close> walks the entries in
  order. An association list with \<open>map_of\<close>, \<open>AList.update\<close> and \<open>AList.delete\<close> does
  the same.
\<close>

record Database =
  users :: "(string \<times> User) list"
  projects :: "(string \<times> Project) list"

section \<open>Token codec (src/server/services/auth.service.ts)\<close>

definition TOKEN_PREFIX :: string where
  "TOKEN_PREFIX = ''session_''"

text \<open>
  \<open>generateSessionToken(userId)\<close> draws \<open>sessionId = uuidv4()\<close>; the drawn value is the
  first argument here.
\<close>

definition generateSessionToken :: "string \<Rightarrow> string \<Rightarrow> string" where
  "generateSessionToken uuid userId = TOKEN_PREFIX @ userId @ ''_'' @ uuid"

text \<open>
  \<open>String.prototype.lastIndexOf\<close> for a one-character needle: the greatest index holding
  the character, \<open>None\<close> for the result \<open>-1\<close>.
\<close>

fun lastIndexOf :: "'a \<Rightarrow> 'a list \<Rightarrow> nat option" where
  "lastIndexOf c [] = None"
| "lastIndexOf c (x # xs) =
     (case lastIndexOf c xs of
        Some i \<Rightarrow> Some (Suc i)
      | None \<Rightarrow> if x = c then Some 0 else None)"

text \<open>
  \<open>validateToken\<close>, lines 70 to 91: the checks on the token's format, before the user is
  looked up. The result is the error string of the source, or the pair
  \<open>(userId, sessionId)\<close>. The empty string is falsy (\<open>!token\<close>, \<open>!userId\<close>, \<open>!sessionId\<close>).
\<close>

definition parseToken :: "string \<Rightarrow> string + (string \<times> string)" where
  "parseToken token =
     (if token = [] \<or> \<not> prefix TOKEN_PREFIX token then Inl ''Invalid token format''
      else
        let tokenBody = drop (length TOKEN_PREFIX) token in
        case lastIndexOf CHR ''_'' tokenBody of
          None \<Rightarrow> Inl ''Malformed token''
        | Some lastUnderscoreIndex \<Rightarrow>
            let userId = take lastUnderscoreIndex tokenBody;
                sessionId = drop (lastUnderscoreIndex + 1) tokenBody
            in if userId = [] \<or> sessionId = [] then Inl ''Malformed token''
               else Inr (userId, sessionId))"

text \<open>
  \<open>validateToken\<close>, whole: the format checks, then \<open>db.users.get(userId)\<close>. The context's
  \<open>userId\<close> is the \<open>id\<close> field of the stored user, as in the source.
\<close>

definition validateToken :: "Database \<Rightarrow> string \<Rightarrow> string + AuthContext" where
  "validateToken db token =
     (case parseToken token of
        Inl e \<Rightarrow> Inl e
      | Inr (userId, sessionId) \<Rightarrow>
          (case map_of (users db) userId of
             None \<Rightarrow> Inl ''User not found''
           | Some user \<Rightarrow>
               Inr \<lparr>a_userId = u_id user, a_user = user, a_sessionId = sessionId\<rparr>))"

section \<open>Permission table (src/server/services/auth.service.ts)\<close>

text \<open>
  \<open>PERMISSIONS\<close> is an object literal, and \<open>PERMISSIONS[role]\<close> is a JavaScript property
  read: it finds the literal's own keys first and then the properties that every object
  literal inherits from \<open>Object.prototype\<close>. The inherited values are functions (and, for
  \<open>__proto__\<close>, the prototype object itself): all truthy, none of them an array, none with
  a method \<open>includes\<close>. A key found nowhere reads as \<open>undefined\<close>.
\<close>

datatype JsValue = JsArray "string list" | JsInherited string | JsUndefined

datatype JsError = TypeError

definition PERMISSIONS_own :: "(string \<times> string list) list" where
  "PERMISSIONS_own =
     [(''admin'', [''read'', ''write'', ''delete'', ''manage:users'', ''manage:projects'',
                   ''manage:api-keys'']),
      (''member'', [''read'', ''write'', ''manage:projects'', ''manage:api-keys'']),
      (''viewer'', [''read''])]"

definition Object_prototype_keys :: "string list" where
  "Object_prototype_keys =
     [''constructor'', ''__defineGetter__'', ''__defineSetter__'', ''hasOwnProperty'',
      ''__lookupGetter__'', ''__lookupSetter__'', ''isPrototypeOf'',
      ''propertyIsEnumerable'', ''toString'', ''valueOf'', ''__proto__'',
      ''toLocaleString'']"

definition PERMISSIONS :: "string \<Rightarrow> JsValue" where
  "PERMISSIONS key =
     (case map_of PERMISSIONS_own key of
        Some permissions \<Rightarrow> JsArray permissions
      | None \<Rightarrow> if key \<in> set Object_prototype_keys then JsInherited key else JsUndefined)"

text \<open>\<open>v || []\<close>: \<open>undefined\<close> is the only falsy value that \<open>PERMISSIONS\<close> can yield.\<close>

definition orEmptyArray :: "JsValue \<Rightarrow> JsValue" where
  "orEmptyArray v = (case v of JsUndefined \<Rightarrow> JsArray [] | _ \<Rightarrow> v)"

text \<open>
  \<open>hasPermission\<close> calls \<open>userPermissions.includes(permission)\<close>; on a value that has no
  such method the call throws a \<open>TypeError\<close>.
\<close>

definition hasPermission :: "User \<Rightarrow> string \<Rightarrow> JsError + bool" where
  "hasPermission usr permission =
     (case orEmptyArray (PERMISSIONS (u_role usr)) of
        JsArray userPermissions \<Rightarrow> Inr (permission \<in> set userPermissions)
      | _ \<Rightarrow> Inl TypeError)"

definition getPermissionsForRole :: "string \<Rightarrow> JsValue" where
  "getPermissionsForRole role = orEmptyArray (PERMISSIONS role)"

section \<open>Requests and responses\<close>

text \<open>
  A request as the handlers read it: the \<open>Authorization\<close> header, the path parameter
  \<open>:id\<close> and the body that \<open>express.json()\<close> has left in \<open>req.body\<close>: an object, or
  something that is not an object (an array, or no parsed body at all), which every schema
  rejects. The schemas of this repository only tell a string, \<open>null\<close> and anything else
  apart, so the value of a key is one of these three.
\<close>

datatype Json = JString string | JNull | JOther

datatype Body = BodyObject "string \<Rightarrow> Json option" | BodyOther

record Request =
  req_authorization :: "string option"
  req_params_id :: string
  req_body :: Body

text \<open>
  \<open>ApiResponse\<close>: \<open>Failure code message\<close> is \<open>{success: false, error: {code, message}}\<close>
  (the \<open>details\<close> that a validation error carries are left out), every other constructor
  is \<open>{success: true, data}\<close>.
\<close>

datatype Payload =
    Failure string string
  | UserData User
  | UserList "User list"
  | ProjectData Project
  | ProjectList "Project list"
  | Deleted bool

record Response =
  res_status :: nat
  res_body :: Payload

definition failure :: "nat \<Rightarrow> string \<Rightarrow> string \<Rightarrow> Response" where
  "failure code error message = \<lparr>res_status = code, res_body = Failure error message\<rparr>"

definition success :: "nat \<Rightarrow> Payload \<Rightarrow> Response" where
  "success code d = \<lparr>res_status = code, res_body = d\<rparr>"

text \<open>
  What the handlers take from outside: the clock behind \<open>now()\<close>, the two ingredients of
  \<open>generateId\<close> (\<open>Date.now().toString(36)\<close> and the six characters cut from
  \<open>Math.random().toString(36)\<close>), and the two format tests that zod brings along
  (\<open>.email()\<close>, \<open>.url()\<close>).
\<close>

record Env =
  e_now :: string
  e_timestamp :: string
  e_random :: string
  e_isEmail :: "string \<Rightarrow> bool"
  e_isUrl :: "string \<Rightarrow> bool"

definition generateId :: "Env \<Rightarrow> string \<Rightarrow> string" where
  "generateId env pre = pre @ ''_'' @ e_timestamp env @ e_random env"

section \<open>Middleware (src/server/middleware/auth.middleware.ts)\<close>

definition requireAuth :: "Database \<Rightarrow> Request \<Rightarrow> Response + AuthContext" where
  "requireAuth db req =
     (case req_authorization req of
        None \<Rightarrow> Inl (failure 401 ''UNAUTHORIZED'' ''Authorization header required'')
      | Some authHeader \<Rightarrow>
          if authHeader = [] then
            Inl (failure 401 ''UNAUTHORIZED'' ''Authorization header required'')
          else if \<not> prefix ''Bearer '' authHeader then
            Inl (failure 401 ''UNAUTHORIZED'' ''Bearer token required'')
          else
            (case validateToken db (drop 7 authHeader) of
               Inl e \<Rightarrow>
                 Inl (failure 401 ''UNAUTHORIZED'' (if e = [] then ''Invalid token'' else e))
             | Inr context \<Rightarrow> Inr context))"

text \<open>
  A middleware either calls \<open>next()\<close>, or answers, or throws. Express hands an exception
  thrown by a synchronous middleware to the global error handler of the server entry
  point, which answers 500.
\<close>

datatype MiddlewareResult = Next | Respond Response | Throw JsError

definition requirePermission :: "string \<Rightarrow> AuthContext option \<Rightarrow> MiddlewareResult" where
  "requirePermission permission auth =
     (case auth of
        None \<Rightarrow> Respond (failure 401 ''UNAUTHORIZED'' ''Authentication required'')
      | Some a \<Rightarrow>
          (case hasPermission (a_user a) permission of
             Inl e \<Rightarrow> Throw e
           | Inr granted \<Rightarrow>
               if \<not> granted then
                 Respond (failure 403 ''FORBIDDEN'' (''Permission denied: '' @ permission))
               else Next))"

definition errorHandler :: "JsError \<Rightarrow> Response" where
  "errorHandler err = failure 500 ''INTERNAL_ERROR'' ''An unexpected error occurred''"

section \<open>Validation schemas (zod)\<close>

text \<open>
  A field validator takes the JSON value of a present key and gives the parsed value, or
  \<open>None\<close> when zod reports an issue. \<open>zRequired\<close> and \<open>zOptional\<close> say what an absent
  key does. A schema gives \<open>None\<close> when \<open>safeParse\<close> has \<open>success: false\<close>. Keys that a
  schema does not name are dropped by \<open>z.object\<close>, and an optional key that is absent
  from the body is absent from the parsed object.
\<close>

definition zString :: "nat \<Rightarrow> nat \<Rightarrow> Json \<Rightarrow> string option" where
  "zString lo hi j =
     (case j of
        JString s \<Rightarrow> if lo \<le> length s \<and> length s \<le> hi then Some s else None
      | _ \<Rightarrow> None)"

definition zEnum :: "string list \<Rightarrow> Json \<Rightarrow> string option" where
  "zEnum vals j =
     (case j of JString s \<Rightarrow> if s \<in> set vals then Some s else None | _ \<Rightarrow> None)"

definition zRequired :: "(Json \<Rightarrow> 'a option) \<Rightarrow> Json option \<Rightarrow> 'a option" where
  "zRequired v field = (case field of None \<Rightarrow> None | Some j \<Rightarrow> v j)"

definition zOptional :: "(Json \<Rightarrow> 'a option) \<Rightarrow> Json option \<Rightarrow> 'a option option" where
  "zOptional v field = (case field of None \<Rightarrow> Some None | Some j \<Rightarrow> map_option Some (v j))"

record CreateProjectInput =
  cp_name :: string
  cp_description :: string

record UpdateProjectInput =
  up_name :: "string option"
  up_description :: "string option"
  up_status :: "string option"

record CreateUserInput =
  cu_email :: string
  cu_name :: string
  cu_role :: string

record UpdateUserInput =
  uu_name :: "string option"
  uu_role :: "string option"
  uu_avatarUrl :: Nullable

definition createProjectSchema :: "Body \<Rightarrow> CreateProjectInput option" where
  "createProjectSchema b =
     (case b of
        BodyOther \<Rightarrow> None
      | BodyObject obj \<Rightarrow>
          (case (zRequired (zString 1 100) (obj ''name''),
                 zOptional (zString 0 500) (obj ''description'')) of
             (Some n, Some d) \<Rightarrow>
               Some \<lparr>cp_name = n,
                     cp_description = (case d of None \<Rightarrow> [] | Some t \<Rightarrow> t)\<rparr>
           | _ \<Rightarrow> None))"

definition updateProjectSchema :: "Body \<Rightarrow> UpdateProjectInput option" where
  "updateProjectSchema b =
     (case b of
        BodyOther \<Rightarrow> None
      | BodyObject obj \<Rightarrow>
          (case (zOptional (zString 1 100) (obj ''name''),
                 zOptional (zString 0 500) (obj ''description''),
                 zOptional (zEnum [''active'', ''archived'', ''deleted'']) (obj ''status'')) of
             (Some n, Some d, Some st) \<Rightarrow>
               Some \<lparr>up_name = n, up_description = d, up_status = st\<rparr>
           | _ \<Rightarrow> None))"

definition zEmail :: "Env \<Rightarrow> Json \<Rightarrow> string option" where
  "zEmail env j =
     (case j of
        JString s \<Rightarrow> if e_isEmail env s \<and> length s \<le> 255 then Some s else None
      | _ \<Rightarrow> None)"

definition createUserSchema :: "Env \<Rightarrow> Body \<Rightarrow> CreateUserInput option" where
  "createUserSchema env b =
     (case b of
        BodyOther \<Rightarrow> None
      | BodyObject obj \<Rightarrow>
          (case (zRequired (zEmail env) (obj ''email''),
                 zRequired (zString 1 100) (obj ''name''),
                 zOptional (zEnum [''admin'', ''member'', ''viewer'']) (obj ''role'')) of
             (Some e, Some n, Some r) \<Rightarrow>
               Some \<lparr>cu_email = e, cu_name = n,
                     cu_role = (case r of None \<Rightarrow> ''member'' | Some t \<Rightarrow> t)\<rparr>
           | _ \<Rightarrow> None))"

text \<open>\<open>z.string().url().optional().nullable()\<close>\<close>

definition zAvatarUrl :: "Env \<Rightarrow> Json option \<Rightarrow> Nullable option" where
  "zAvatarUrl env field =
     (case field of
        None \<Rightarrow> Some Absent
      | Some JNull \<Rightarrow> Some Null
      | Some (JString s) \<Rightarrow> if e_isUrl env s then Some (Str s) else None
      | Some JOther \<Rightarrow> None)"

definition updateUserSchema :: "Env \<Rightarrow> Body \<Rightarrow> UpdateUserInput option" where
  "updateUserSchema env b =
     (case b of
        BodyOther \<Rightarrow> None
      | BodyObject obj \<Rightarrow>
          (case (zOptional (zString 1 100) (obj ''name''),
                 zOptional (zEnum [''admin'', ''member'', ''viewer'']) (obj ''role''),
                 zAvatarUrl env (obj ''avatarUrl'')) of
             (Some n, Some r, Some a) \<Rightarrow>
               Some \<lparr>uu_name = n, uu_role = r, uu_avatarUrl = a\<rparr>
           | _ \<Rightarrow> None))"

section \<open>Projects API (the handlers of the projects router)\<close>

text \<open>
  Each handler takes the database and gives the response with the database after the
  request. The context \<open>auth\<close> is \<open>req.auth!\<close>, which \<open>requireAuth\<close> has set.
\<close>

definition getProjects :: "Database \<Rightarrow> AuthContext \<Rightarrow> Response \<times> Database" where
  "getProjects db auth =
     (let userId = a_userId auth;
          isAdmin = (u_role (a_user auth) = ''admin'');
          found = filter (\<lambda>p. if p_status p = ''deleted'' then False
                               else if isAdmin then True
                               else p_ownerId p = userId)
                         (map snd (projects db))
      in (success 200 (ProjectList found), db))"

definition getProject :: "Database \<Rightarrow> AuthContext \<Rightarrow> Request \<Rightarrow> Response \<times> Database" where
  "getProject db auth req =
     (let ident = req_params_id req; project = map_of (projects db) ident in
      if project = None \<or> p_status (the project) = ''deleted'' then
        (failure 404 ''NOT_FOUND'' ''Project not found'', db)
      else
        let isOwner = (p_ownerId (the project) = a_userId auth);
            isAdmin = (u_role (a_user auth) = ''admin'')
        in if \<not> isOwner \<and> \<not> isAdmin then
             (failure 403 ''FORBIDDEN'' ''Access denied'', db)
           else (success 200 (ProjectData (the project)), db))"

definition postProject ::
  "Env \<Rightarrow> Database \<Rightarrow> AuthContext \<Rightarrow> Request \<Rightarrow> Response \<times> Database" where
  "postProject env db auth req =
     (case createProjectSchema (req_body req) of
        None \<Rightarrow> (failure 400 ''VALIDATION_ERROR'' ''Invalid input'', db)
      | Some input \<Rightarrow>
          let timestamp = e_now env;
              project = \<lparr>p_id = generateId env ''prj'',
                         p_name = cp_name input,
                         p_description =
                           (if cp_description input = [] then [] else cp_description input),
                         p_ownerId = a_userId auth,
                         p_status = ''active'',
                         p_createdAt = timestamp,
                         p_updatedAt = timestamp\<rparr>
          in (success 201 (ProjectData project),
              db\<lparr>projects := AList.update (p_id project) project (projects db)\<rparr>))"

definition putProject ::
  "Env \<Rightarrow> Database \<Rightarrow> AuthContext \<Rightarrow> Request \<Rightarrow> Response \<times> Database" where
  "putProject env db auth req =
     (let ident = req_params_id req; project = map_of (projects db) ident in
      if project = None \<or> p_status (the project) = ''deleted'' then
        (failure 404 ''NOT_FOUND'' ''Project not found'', db)
      else
        let isOwner = (p_ownerId (the project) = a_userId auth);
            isAdmin = (u_role (a_user auth) = ''admin'')
        in if \<not> isOwner \<and> \<not> isAdmin then
             (failure 403 ''FORBIDDEN'' ''Only project owners can update projects'', db)
           else
             (case updateProjectSchema (req_body req) of
                None \<Rightarrow> (failure 400 ''VALIDATION_ERROR'' ''Invalid input'', db)
              | Some input \<Rightarrow>
                  let updatedProject = (the project)
                        \<lparr>p_name := (case up_name input of
                                      None \<Rightarrow> p_name (the project) | Some n \<Rightarrow> n),
                         p_description := (case up_description input of
                                      None \<Rightarrow> p_description (the project) | Some d \<Rightarrow> d),
                         p_status := (case up_status input of
                                      None \<Rightarrow> p_status (the project) | Some st \<Rightarrow> st),
                         p_updatedAt := e_now env\<rparr>
                  in (success 200 (ProjectData updatedProject),
                      db\<lparr>projects := AList.update ident updatedProject (projects db)\<rparr>)))"

definition deleteProject ::
  "Env \<Rightarrow> Database \<Rightarrow> AuthContext \<Rightarrow> Request \<Rightarrow> Response \<times> Database" where
  "deleteProject env db auth req =
     (let ident = req_params_id req; project = map_of (projects db) ident in
      if project = None \<or> p_status (the project) = ''deleted'' then
        (failure 404 ''NOT_FOUND'' ''Project not found'', db)
      else
        let isOwner = (p_ownerId (the project) = a_userId auth);
            isAdmin = (u_role (a_user auth) = ''admin'')
        in if \<not> isOwner \<and> \<not> isAdmin then
             (failure 403 ''FORBIDDEN'' ''Only project owners can delete projects'', db)
           else
             let updatedProject = (the project)
                   \<lparr>p_status := ''deleted'', p_updatedAt := e_now env\<rparr>
             in (success 200 (Deleted True),
                 db\<lparr>projects := AList.update ident updatedProject (projects db)\<rparr>))"

section \<open>Users API (the handlers of the users router)\<close>

definition getUsers :: "Database \<Rightarrow> Response \<times> Database" where
  "getUsers db = (success 200 (UserList (map snd (users db))), db)"

definition getMe :: "Database \<Rightarrow> AuthContext \<Rightarrow> Response \<times> Database" where
  "getMe db auth = (success 200 (UserData (a_user auth)), db)"

definition getUser :: "Database \<Rightarrow> Request \<Rightarrow> Response \<times> Database" where
  "getUser db req =
     (case map_of (users db) (req_params_id req) of
        None \<Rightarrow> (failure 404 ''NOT_FOUND'' ''User not found'', db)
      | Some usr \<Rightarrow> (success 200 (UserData usr), db))"

definition postUser :: "Env \<Rightarrow> Database \<Rightarrow> Request \<Rightarrow> Response \<times> Database" where
  "postUser env db req =
     (case createUserSchema env (req_body req) of
        None \<Rightarrow> (failure 400 ''VALIDATION_ERROR'' ''Invalid input'', db)
      | Some input \<Rightarrow>
          if \<exists>existingUser \<in> set (map snd (users db)). u_email existingUser = cu_email input
          then (failure 409 ''CONFLICT'' ''A user with this email already exists'', db)
          else
            let timestamp = e_now env;
                usr = \<lparr>u_id = generateId env ''usr'',
                       u_email = cu_email input,
                       u_name = cu_name input,
                       u_role = (if cu_role input = [] then ''member'' else cu_role input),
                       u_avatarUrl = Absent,
                       u_createdAt = timestamp,
                       u_updatedAt = timestamp\<rparr>
            in (success 201 (UserData usr),
                db\<lparr>users := AList.update (u_id usr) usr (users db)\<rparr>))"

definition putUser ::
  "Env \<Rightarrow> Database \<Rightarrow> AuthContext \<Rightarrow> Request \<Rightarrow> Response \<times> Database" where
  "putUser env db auth req =
     (let ident = req_params_id req in
      case map_of (users db) ident of
        None \<Rightarrow> (failure 404 ''NOT_FOUND'' ''User not found'', db)
      | Some usr \<Rightarrow>
          let isSelf = (a_userId auth = ident);
              isAdmin = (u_role (a_user auth) = ''admin'')
          in if \<not> isSelf \<and> \<not> isAdmin then
               (failure 403 ''FORBIDDEN'' ''Cannot update other users'', db)
             else
               (case updateUserSchema env (req_body req) of
                  None \<Rightarrow> (failure 400 ''VALIDATION_ERROR'' ''Invalid input'', db)
                | Some input \<Rightarrow>
                    if (uu_role input \<noteq> None \<and> the (uu_role input) \<noteq> []) \<and> \<not> isAdmin then
                      (failure 403 ''FORBIDDEN'' ''Only admins can change user roles'', db)
                    else
                      let updatedUser = usr
                            \<lparr>u_name := (case uu_name input of
                                          None \<Rightarrow> u_name usr | Some n \<Rightarrow> n),
                             u_role := (case uu_role input of
                                          None \<Rightarrow> u_role usr | Some r \<Rightarrow> r),
                             u_avatarUrl := (case uu_avatarUrl input of
                                          Absent \<Rightarrow> u_avatarUrl usr | a \<Rightarrow> a),
                             u_updatedAt := e_now env\<rparr>
                      in (success 200 (UserData updatedUser),
                          db\<lparr>users := AList.update ident updatedUser (users db)\<rparr>)))"

definition deleteUser :: "Database \<Rightarrow> AuthContext \<Rightarrow> Request \<Rightarrow> Response \<times> Database" where
  "deleteUser db auth req =
     (let ident = req_params_id req in
      case map_of (users db) ident of
        None \<Rightarrow> (failure 404 ''NOT_FOUND'' ''User not found'', db)
      | Some usr \<Rightarrow>
          if a_userId auth = ident then
            (failure 403 ''FORBIDDEN'' ''Cannot delete your own account'', db)
          else
            (success 200 (Deleted True), db\<lparr>users := AList.delete ident (users db)\<rparr>))"

section \<open>The routers\<close>

text \<open>
  A route is a chain: \<open>requireAuth\<close>, for three routes of the users router
  \<open>requirePermission('manage:users')\<close>, then the handler. A middleware that answers ends
  the chain, and nothing after it runs. Matching a path to a route is Express's work;
  a request arrives here with its route.
\<close>

definition withAuth ::
  "Database \<Rightarrow> Request \<Rightarrow> (AuthContext \<Rightarrow> Response \<times> Database) \<Rightarrow> Response \<times> Database" where
  "withAuth db req handler =
     (case requireAuth db req of
        Inl denied \<Rightarrow> (denied, db)
      | Inr auth \<Rightarrow> handler auth)"

definition withPermission ::
  "string \<Rightarrow> Database \<Rightarrow> AuthContext \<Rightarrow> Response \<times> Database \<Rightarrow> Response \<times> Database" where
  "withPermission permission db auth handled =
     (case requirePermission permission (Some auth) of
        Respond denied \<Rightarrow> (denied, db)
      | Throw err \<Rightarrow> (errorHandler err, db)
      | Next \<Rightarrow> handled)"

datatype Route =
    GET_projects | GET_projects_id | POST_projects | PUT_projects_id | DELETE_projects_id
  | GET_users | GET_users_me | GET_users_id | POST_users | PUT_users_id | DELETE_users_id

fun handle :: "Env \<Rightarrow> Database \<Rightarrow> Route \<Rightarrow> Request \<Rightarrow> Response \<times> Database" where
  "handle env db GET_projects req = withAuth db req (\<lambda>auth. getProjects db auth)"
| "handle env db GET_projects_id req = withAuth db req (\<lambda>auth. getProject db auth req)"
| "handle env db POST_projects req = withAuth db req (\<lambda>auth. postProject env db auth req)"
| "handle env db PUT_projects_id req = withAuth db req (\<lambda>auth. putProject env db auth req)"
| "handle env db DELETE_projects_id req =
     withAuth db req (\<lambda>auth. deleteProject env db auth req)"
| "handle env db GET_users req =
     withAuth db req (\<lambda>auth. withPermission ''manage:users'' db auth (getUsers db))"
| "handle env db GET_users_me req = withAuth db req (\<lambda>auth. getMe db auth)"
| "handle env db GET_users_id req = withAuth db req (\<lambda>auth. getUser db req)"
| "handle env db POST_users req =
     withAuth db req (\<lambda>auth. withPermission ''manage:users'' db auth (postUser env db req))"
| "handle env db PUT_users_id req = withAuth db req (\<lambda>auth. putUser env db auth req)"
| "handle env db DELETE_users_id req =
     withAuth db req
       (\<lambda>auth. withPermission ''manage:users'' db auth (deleteUser db auth req))"

section \<open>The seed data and the shape of a database\<close>

text \<open>\<open>seedDatabase()\<close>: the three users and four projects the store starts with.\<close>

definition seedDatabase :: Database where
  "seedDatabase =
     \<lparr>users =
        [(''usr_alice'',
          \<lparr>u_id = ''usr_alice'', u_email = ''alice@acme.com'', u_name = ''Alice Chen'',
           u_role = ''admin'',
           u_avatarUrl = Str ''https://api.dicebear.com/7.x/avataaars/svg?seed=alice'',
           u_createdAt = ''2024-01-15T10:00:00Z'', u_updatedAt = ''2024-01-15T10:00:00Z''\<rparr>),
         (''usr_bob'',
          \<lparr>u_id = ''usr_bob'', u_email = ''bob@acme.com'', u_name = ''Bob Martinez'',
           u_role = ''member'',
           u_avatarUrl = Str ''https://api.dicebear.com/7.x/avataaars/svg?seed=bob'',
           u_createdAt = ''2024-02-01T14:30:00Z'', u_updatedAt = ''2024-02-01T14:30:00Z''\<rparr>),
         (''usr_carol'',
          \<lparr>u_id = ''usr_carol'', u_email = ''carol@acme.com'', u_name = ''Carol Kim'',
           u_role = ''viewer'',
           u_avatarUrl = Str ''https://api.dicebear.com/7.x/avataaars/svg?seed=carol'',
           u_createdAt = ''2024-02-15T09:00:00Z'', u_updatedAt = ''2024-02-15T09:00:00Z''\<rparr>)],
      projects =
        [(''prj_website'',
          \<lparr>p_id = ''prj_website'', p_name = ''Marketing Website'',
           p_description = ''Main company marketing site with CMS integration'',
           p_ownerId = ''usr_alice'', p_status = ''active'',
           p_createdAt = ''2024-01-20T11:00:00Z'', p_updatedAt = ''2024-03-10T15:30:00Z''\<rparr>),
         (''prj_mobile'',
          \<lparr>p_id = ''prj_mobile'', p_name = ''Mobile App v2'',
           p_description = ''React Native app for iOS and Android'',
           p_ownerId = ''usr_bob'', p_status = ''active'',
           p_createdAt = ''2024-02-05T08:00:00Z'', p_updatedAt = ''2024-03-15T12:00:00Z''\<rparr>),
         (''prj_api'',
          \<lparr>p_id = ''prj_api'', p_name = ''Public API'',
           p_description = ''REST API for third-party integrations'',
           p_ownerId = ''usr_alice'', p_status = ''active'',
           p_createdAt = ''2024-02-10T16:00:00Z'', p_updatedAt = ''2024-03-12T09:45:00Z''\<rparr>),
         (''prj_legacy'',
          \<lparr>p_id = ''prj_legacy'', p_name = ''Legacy Dashboard'',
           p_description = ''Old admin dashboard - being phased out'',
           p_ownerId = ''usr_alice'', p_status = ''archived'',
           p_createdAt = ''2023-06-01T10:00:00Z'', p_updatedAt = ''2024-01-15T10:00:00Z''\<rparr>)]\<rparr>"

text \<open>
  What the store is at every moment: each \<open>Map\<close> has one entry per key, an entry's key is
  the \<open>id\<close> of its record, and a user's role is one of \<open>UserRole\<close> (the type of the field;
  the schemas admit nothing else). \<open>seedDatabase\<close> has this shape and every route keeps it.
\<close>

definition wellFormed :: "Database \<Rightarrow> bool" where
  "wellFormed db \<longleftrightarrow>
     distinct (map fst (users db)) \<and>
     list_all (\<lambda>(k, usr). u_id usr = k \<and> u_role usr \<in> set UserRole) (users db) \<and>
     distinct (map fst (projects db)) \<and>
     list_all (\<lambda>(k, project). p_id project = k) (projects db)"

section \<open>Outcome of a request\<close>

text \<open>
  The statuses the routes can answer with, and the store after an answer that is not a
  success.
\<close>

definition settled :: "Database \<Rightarrow> Response \<times> Database \<Rightarrow> bool" where
  "settled db out \<longleftrightarrow>
     res_status (fst out) \<in> {200, 201, 400, 401, 403, 404, 409, 500} \<and>
     (res_status (fst out) \<notin> {200, 201} \<longrightarrow> snd out = db)"

section \<open>Example values\<close>

text \<open>
  Concrete inputs for the worked examples that follow the theorems: an environment, and
  a request that carries a bearer token.
\<close>

definition exampleEnv :: Env where
  "exampleEnv =
     \<lparr>e_now = ''2024-04-01T12:00:00Z'', e_timestamp = ''lugk2w00'', e_random = ''k3x9q1'',
      e_isEmail = (\<lambda>s. CHR ''@'' \<in> set s), e_isUrl = (\<lambda>s. prefix ''https://'' s)\<rparr>"

definition exampleRequest :: "string \<Rightarrow> string \<Rightarrow> Body \<Rightarrow> Request" where
  "exampleRequest token ident b =
     \<lparr>req_authorization = Some (''Bearer '' @ token), req_params_id = ident, req_body = b\<rparr>"

definition alice :: User where "alice = snd (users seedDatabase ! 0)"

definition bob :: User where "bob = snd (users seedDatabase ! 1)"

definition carol :: User where "carol = snd (users seedDatabase ! 2)"

definition website :: Project where "website = snd (projects seedDatabase ! 0)"

definition mobile :: Project where "mobile = snd (projects seedDatabase ! 1)"

section \<open>Properties of the token codec\<close>

lemma lastIndexOf_None: "lastIndexOf c xs = None \<longleftrightarrow> c \<notin> set xs"
  by (induction xs) (auto split: option.splits)

lemma lastIndexOf_append:
  "c \<notin> set ys \<Longrightarrow> lastIndexOf c (xs @ c # ys) = Some (length xs)"
proof (induction xs)
  case Nil
  then have "lastIndexOf c ys = None" by (simp add: lastIndexOf_None)
  then show ?case by simp
next
  case (Cons x xs)
  then show ?case by simp
qed

lemma lastIndexOf_Some:
  "lastIndexOf c xs = Some i \<Longrightarrow> xs = take i xs @ c # drop (Suc i) xs \<and> c \<notin> set (drop (Suc i) xs)"
proof (induction xs arbitrary: i)
  case Nil
  then show ?case by simp
next
  case (Cons x xs)
  show ?case
  proof (cases "lastIndexOf c xs")
    case None
    with Cons.prems have "x = c" "i = 0" by (auto split: if_splits)
    with None show ?thesis by (simp add: lastIndexOf_None)
  next
    case (Some j)
    with Cons.prems have i: "i = Suc j" by simp
    from Cons.IH [OF Some] i show ?thesis by simp
  qed
qed

lemma parseToken_mint:
  assumes "userId \<noteq> []" "uuid \<noteq> []" "CHR ''_'' \<notin> set uuid"
  shows "parseToken (generateSessionToken uuid userId) = Inr (userId, uuid)"
proof -
  let ?body = "userId @ CHR ''_'' # uuid"
  have tok: "generateSessionToken uuid userId = TOKEN_PREFIX @ ?body"
    by (simp add: generateSessionToken_def)
  have idx: "lastIndexOf CHR ''_'' ?body = Some (length userId)"
    using assms(3) by (rule lastIndexOf_append)
  show ?thesis
    unfolding tok parseToken_def using assms(1,2) idx
    by (simp add: Let_def)
qed

lemma parseToken_sound:
  assumes "parseToken token = Inr (u, s)"
  shows "token = TOKEN_PREFIX @ u @ ''_'' @ s \<and> u \<noteq> [] \<and> s \<noteq> [] \<and> CHR ''_'' \<notin> set s"
proof -
  let ?body = "drop (length TOKEN_PREFIX) token"
  from assms have pre: "prefix TOKEN_PREFIX token"
    by (auto simp: parseToken_def split: if_splits)
  then have tok: "token = TOKEN_PREFIX @ ?body"
    by (metis append_eq_conv_conj prefixE)
  from assms pre obtain i where i: "lastIndexOf CHR ''_'' ?body = Some i"
    by (auto simp: parseToken_def Let_def split: if_splits option.splits)
  with assms pre have us: "u = take i ?body" "s = drop (Suc i) ?body" "u \<noteq> []" "s \<noteq> []"
    by (auto simp: parseToken_def Let_def split: if_splits)
  from lastIndexOf_Some [OF i] us have "?body = u @ ''_'' @ s" "CHR ''_'' \<notin> set s"
    by simp_all
  with tok us show ?thesis by metis
qed

section \<open>The shape of the database\<close>

lemma wellFormed_user:
  "wellFormed db \<Longrightarrow> map_of (users db) k = Some usr \<Longrightarrow>
     u_id usr = k \<and> u_role usr \<in> set UserRole"
  by (auto simp: wellFormed_def list_all_iff dest!: map_of_SomeD)

lemma wellFormed_seedDatabase: "wellFormed seedDatabase"
  by (simp add: wellFormed_def seedDatabase_def UserRole_def)

section \<open>Claims about the token codec\<close>

text \<open>
  C1. Token round trip. For every non-empty identity id, with or without the separator
  \<open>_\<close> in it, parsing the token minted for that id gives back exactly that id and the
  nonce that was drawn, because the parser splits at the last \<open>_\<close>. The nonce is the
  result of \<open>uuidv4()\<close>, 36 hexadecimal digits and hyphens: it is not empty and holds no
  \<open>_\<close>, which is all the theorem asks of it. Where the id is a key of a well-formed
  store, \<open>validateToken\<close> as a whole returns that id, the stored user and the nonce. The
  token \<open>session_usr_alice_demo123\<close> parses to \<open>usr_alice\<close> and \<open>demo123\<close>.
\<close>

theorem token_round_trip:
  assumes "userId \<noteq> []" and "uuid \<noteq> []" and "CHR ''_'' \<notin> set uuid"
  shows "parseToken (generateSessionToken uuid userId) = Inr (userId, uuid) \<and>
         (wellFormed db \<and> map_of (users db) userId = Some usr \<longrightarrow>
            validateToken db (generateSessionToken uuid userId) =
              Inr \<lparr>a_userId = userId, a_user = usr, a_sessionId = uuid\<rparr>) \<and>
         parseToken ''session_usr_alice_demo123'' = Inr (''usr_alice'', ''demo123'')"
proof (intro conjI impI)
  show p: "parseToken (generateSessionToken uuid userId) = Inr (userId, uuid)"
    using assms by (rule parseToken_mint)
  show "parseToken ''session_usr_alice_demo123'' = Inr (''usr_alice'', ''demo123'')"
    by (simp add: parseToken_def TOKEN_PREFIX_def)
  assume db: "wellFormed db \<and> map_of (users db) userId = Some usr"
  then have "u_id usr = userId" using wellFormed_user by blast
  with db p show "validateToken db (generateSessionToken uuid userId) =
      Inr \<lparr>a_userId = userId, a_user = usr, a_sessionId = uuid\<rparr>"
    by (simp add: validateToken_def)
qed

theorem token_round_trip_witness:
  "''usr_bob'' \<noteq> [] \<and> ''110ec58a-a0f2-4ac4-8393-c866d813b8d1'' \<noteq> [] \<and>
   CHR ''_'' \<notin> set ''110ec58a-a0f2-4ac4-8393-c866d813b8d1'' \<and>
   parseToken (generateSessionToken ''110ec58a-a0f2-4ac4-8393-c866d813b8d1'' ''usr_bob'') =
     Inr (''usr_bob'', ''110ec58a-a0f2-4ac4-8393-c866d813b8d1'') \<and>
   wellFormed seedDatabase \<and>
   map_of (users seedDatabase) ''usr_bob'' = Some bob \<and>
   validateToken seedDatabase
       (generateSessionToken ''110ec58a-a0f2-4ac4-8393-c866d813b8d1'' ''usr_bob'') =
     Inr \<lparr>a_userId = ''usr_bob'', a_user = bob,
          a_sessionId = ''110ec58a-a0f2-4ac4-8393-c866d813b8d1''\<rparr>"
proof -
  have h1: "''usr_bob'' \<noteq> []" by simp
  have h2: "''110ec58a-a0f2-4ac4-8393-c866d813b8d1'' \<noteq> []" by simp
  have h3: "CHR ''_'' \<notin> set ''110ec58a-a0f2-4ac4-8393-c866d813b8d1''" by simp
  have h4: "map_of (users seedDatabase) ''usr_bob'' = Some bob"
    by (simp add: seedDatabase_def bob_def)
  show ?thesis
    using token_round_trip [OF h1 h2 h3, of seedDatabase bob]
      h4 wellFormed_seedDatabase
    by simp
qed

text \<open>
  C6. Malformed tokens. For every input string: a token without the prefix \<open>session_\<close>
  fails (error \<open>Invalid token format\<close>); a token whose body after the prefix holds no
  separator fails (error \<open>Malformed token\<close>); a token whose split at the last separator
  leaves the identity id or the session nonce empty fails (error \<open>Malformed token\<close>).
  Both error strings are format errors of the token, the failure the specification names
  MalformedToken, and \<open>validateToken\<close> returns them whatever the store holds. In
  particular \<open>not_a_token\<close> and \<open>session_\<close> fail. Parsing never succeeds with a wrong or
  truncated id: when it succeeds, the token is the prefix, the id returned, one separator
  and the nonce returned, the id and the nonce are not empty and the nonce holds no
  separator.
\<close>

theorem malformed_token_fails:
  "(\<not> prefix ''session_'' token \<longrightarrow> parseToken token = Inl ''Invalid token format'') \<and>
   (prefix ''session_'' token \<and> CHR ''_'' \<notin> set (drop 8 token) \<longrightarrow>
      parseToken token = Inl ''Malformed token'') \<and>
   (token = ''session_'' @ u @ ''_'' @ s \<and> CHR ''_'' \<notin> set s \<and> (u = [] \<or> s = []) \<longrightarrow>
      parseToken token = Inl ''Malformed token'') \<and>
   (\<forall>e. parseToken token = Inl e \<longrightarrow> validateToken db token = Inl e) \<and>
   parseToken ''not_a_token'' = Inl ''Invalid token format'' \<and>
   parseToken ''session_'' = Inl ''Malformed token'' \<and>
   (\<forall>ident sess. parseToken token = Inr (ident, sess) \<longrightarrow>
      token = ''session_'' @ ident @ ''_'' @ sess \<and> ident \<noteq> [] \<and> sess \<noteq> [] \<and>
      CHR ''_'' \<notin> set sess)"
proof (intro conjI impI allI)
  show "parseToken token = Inl ''Invalid token format''" if "\<not> prefix ''session_'' token"
    using that by (simp add: parseToken_def TOKEN_PREFIX_def)
  show "parseToken token = Inl ''Malformed token''"
    if "prefix ''session_'' token \<and> CHR ''_'' \<notin> set (drop 8 token)"
  proof -
    have len: "length TOKEN_PREFIX = 8" by (simp add: TOKEN_PREFIX_def)
    from that have pre: "prefix TOKEN_PREFIX token" by (simp add: TOKEN_PREFIX_def)
    from that have "lastIndexOf CHR ''_'' (drop 8 token) = None"
      by (simp add: lastIndexOf_None)
    moreover from that have "token \<noteq> []" by auto
    ultimately show ?thesis using pre by (simp add: parseToken_def len)
  qed
  show "parseToken token = Inl ''Malformed token''"
    if h: "token = ''session_'' @ u @ ''_'' @ s \<and> CHR ''_'' \<notin> set s \<and> (u = [] \<or> s = [])"
  proof -
    from h have "lastIndexOf CHR ''_'' (u @ CHR ''_'' # s) = Some (length u)"
      by (simp add: lastIndexOf_append)
    with h show ?thesis by (auto simp: parseToken_def TOKEN_PREFIX_def)
  qed
  show "validateToken db token = Inl e" if "parseToken token = Inl e" for e
    using that by (simp add: validateToken_def)
  show "parseToken ''not_a_token'' = Inl ''Invalid token format''"
    by (simp add: parseToken_def TOKEN_PREFIX_def)
  show "parseToken ''session_'' = Inl ''Malformed token''"
    by (simp add: parseToken_def TOKEN_PREFIX_def)
  fix ident sess assume "parseToken token = Inr (ident, sess)"
  from parseToken_sound [OF this]
  show "token = ''session_'' @ ident @ ''_'' @ sess" "ident \<noteq> []" "sess \<noteq> []"
    "CHR ''_'' \<notin> set sess"
    by (simp_all add: TOKEN_PREFIX_def)
qed

theorem malformed_token_fails_witness:
  "\<not> prefix ''session_'' ''Session_usr_bob_abc'' \<and>
   parseToken ''Session_usr_bob_abc'' = Inl ''Invalid token format'' \<and>
   prefix ''session_'' ''session_usrbob'' \<and> CHR ''_'' \<notin> set (drop 8 ''session_usrbob'') \<and>
   parseToken ''session_usrbob'' = Inl ''Malformed token'' \<and>
   parseToken ''session_usr_bob_'' = Inl ''Malformed token'' \<and>
   validateToken seedDatabase ''session_usr_bob_'' = Inl ''Malformed token'' \<and>
   parseToken ''session_usr_bob_abc'' = Inr (''usr_bob'', ''abc'')"
proof -
  have a: "\<not> prefix ''session_'' ''Session_usr_bob_abc''" by simp
  have b: "prefix ''session_'' ''session_usrbob'' \<and> CHR ''_'' \<notin> set (drop 8 ''session_usrbob'')"
    by simp
  have c: "''session_usr_bob_'' = ''session_'' @ ''usr_bob'' @ ''_'' @ [] \<and>
     CHR ''_'' \<notin> set [] \<and> (''usr_bob'' = [] \<or> ([]::string) = [])" by simp
  have d: "parseToken ''session_usr_bob_abc'' = Inr (''usr_bob'', ''abc'')"
    by (simp add: parseToken_def TOKEN_PREFIX_def)
  from malformed_token_fails [of "''Session_usr_bob_abc''"] a
  have 1: "parseToken ''Session_usr_bob_abc'' = Inl ''Invalid token format''" by blast
  from malformed_token_fails [of "''session_usrbob''"] b
  have 2: "parseToken ''session_usrbob'' = Inl ''Malformed token''" by blast
  from malformed_token_fails [of "''session_usr_bob_''" "''usr_bob''" "[]" seedDatabase] c
  have 3: "parseToken ''session_usr_bob_'' = Inl ''Malformed token''"
    and 4: "validateToken seedDatabase ''session_usr_bob_'' = Inl ''Malformed token''"
    by blast+
  from a b 1 2 3 4 d show ?thesis by blast
qed

section \<open>Claims about the permission table\<close>

lemma PERMISSIONS_unknown:
  assumes "role \<notin> set UserRole" "role \<notin> set Object_prototype_keys"
  shows "PERMISSIONS role = JsUndefined"
  using assms by (simp add: PERMISSIONS_def PERMISSIONS_own_def UserRole_def)

lemma psubset_by_element: "A \<subseteq> B \<Longrightarrow> x \<in> B \<Longrightarrow> x \<notin> A \<Longrightarrow> A \<subset> B"
  by blast

text \<open>
  The default \<open>|| []\<close> at work: a role string that is not a key of the table and names
  no property of \<open>Object.prototype\<close> reads as \<open>undefined\<close>, so \<open>getPermissionsForRole\<close>
  returns the empty array and \<open>hasPermission\<close> returns false for every permission.
\<close>

lemma unknown_role_default:
  assumes "role \<notin> set UserRole" and "role \<notin> set Object_prototype_keys"
  shows "getPermissionsForRole role = JsArray [] \<and>
         (\<forall>usr permission. u_role usr = role \<longrightarrow> hasPermission usr permission = Inr False)"
  using PERMISSIONS_unknown [OF assms]
  by (simp add: getPermissionsForRole_def hasPermission_def orEmptyArray_def)

lemma unknown_role_default_guest:
  "''guest'' \<notin> set UserRole \<and> ''guest'' \<notin> set Object_prototype_keys \<and>
   getPermissionsForRole ''guest'' = JsArray [] \<and>
   hasPermission (carol\<lparr>u_role := ''guest''\<rparr>) ''read'' = Inr False"
proof -
  have h1: "''guest'' \<notin> set UserRole" by (simp add: UserRole_def)
  have h2: "''guest'' \<notin> set Object_prototype_keys" by (simp add: Object_prototype_keys_def)
  from unknown_role_default [OF h1 h2] h1 h2 show ?thesis by simp
qed


text \<open>
  C7. In the static table every permission granted to the role \<open>viewer\<close> is granted to
  the role \<open>member\<close>, and \<open>member\<close> has a permission that \<open>viewer\<close> lacks: the set of the
  viewer's permissions is a strict subset of the member's.
\<close>

theorem viewer_strict_subset_of_member:
  assumes "u_role v = ''viewer''" and "u_role m = ''member''"
  shows "(\<forall>permission. hasPermission v permission = Inr True \<longrightarrow>
            hasPermission m permission = Inr True) \<and>
         (\<exists>permission. hasPermission m permission = Inr True \<and>
            hasPermission v permission = Inr False) \<and>
         getPermissionsForRole ''viewer'' = JsArray [''read''] \<and>
         getPermissionsForRole ''member'' =
           JsArray [''read'', ''write'', ''manage:projects'', ''manage:api-keys''] \<and>
         set [''read''] \<subset> set [''read'', ''write'', ''manage:projects'', ''manage:api-keys'']"
proof (intro conjI allI impI)
  let ?vs = "[''read'']"
  let ?ms = "[''read'', ''write'', ''manage:projects'', ''manage:api-keys'']"
  have v: "PERMISSIONS ''viewer'' = JsArray ?vs"
    by (simp add: PERMISSIONS_def PERMISSIONS_own_def)
  have m: "PERMISSIONS ''member'' = JsArray ?ms"
    by (simp add: PERMISSIONS_def PERMISSIONS_own_def)
  have hv: "hasPermission v permission = Inr (permission \<in> set ?vs)" for permission
    using assms(1) v by (simp add: hasPermission_def orEmptyArray_def)
  have hm: "hasPermission m permission = Inr (permission \<in> set ?ms)" for permission
    using assms(2) m by (simp add: hasPermission_def orEmptyArray_def)
  have sub: "set ?vs \<subseteq> set ?ms" by simp
  have w1: "''write'' \<in> set ?ms" by simp
  have w2: "''write'' \<notin> set ?vs" by simp
  show "hasPermission m permission = Inr True"
    if "hasPermission v permission = Inr True" for permission
  proof -
    from that have "permission \<in> set ?vs" unfolding hv by (simp only: sum.inject simp_thms)
    with sub have "permission \<in> set ?ms" by (rule subsetD)
    then show ?thesis unfolding hm by (simp only:)
  qed
  have "hasPermission m ''write'' = Inr True \<and> hasPermission v ''write'' = Inr False"
    unfolding hv hm using w1 w2 by (simp only: simp_thms)
  then show "\<exists>permission. hasPermission m permission = Inr True \<and>
      hasPermission v permission = Inr False"
    by (rule exI [of "\<lambda>p. hasPermission m p = Inr True \<and> hasPermission v p = Inr False"
          "''write''"])
  show "set ?vs \<subset> set ?ms" using sub w1 w2 by (rule psubset_by_element)
  show "getPermissionsForRole ''viewer'' = JsArray ?vs"
    by (simp only: getPermissionsForRole_def v orEmptyArray_def JsValue.case)
  show "getPermissionsForRole ''member'' = JsArray ?ms"
    by (simp only: getPermissionsForRole_def m orEmptyArray_def JsValue.case)
qed

theorem viewer_strict_subset_of_member_witness:
  "u_role carol = ''viewer'' \<and> u_role bob = ''member'' \<and>
   hasPermission carol ''read'' = Inr True \<and> hasPermission bob ''read'' = Inr True"
proof -
  have h1: "u_role carol = ''viewer''"
    by (simp add: seedDatabase_def carol_def)
  have h2: "u_role bob = ''member''"
    by (simp add: seedDatabase_def bob_def)
  have h3: "hasPermission carol ''read'' = Inr True"
    by (simp add: h1 hasPermission_def orEmptyArray_def PERMISSIONS_def PERMISSIONS_own_def)
  from viewer_strict_subset_of_member [OF h1 h2]
  have "\<forall>permission. hasPermission carol permission = Inr True \<longrightarrow>
      hasPermission bob permission = Inr True"
    by (rule conjunct1)
  then have "hasPermission carol ''read'' = Inr True \<longrightarrow>
      hasPermission bob ''read'' = Inr True"
    by (rule spec)
  from this h3 have h4: "hasPermission bob ''read'' = Inr True" by (rule mp)
  from h1 h2 h3 h4 show ?thesis by (intro conjI)
qed

section \<open>Middleware and router lemmas\<close>

lemma requireAuth_denied_body:
  "requireAuth db req = Inl r \<Longrightarrow> res_status r = 401 \<and> (\<exists>c m. res_body r = Failure c m)"
  by (auto simp: requireAuth_def failure_def split: option.splits if_splits sum.splits)

lemma requireAuth_context:
  assumes "requireAuth db req = Inr auth"
  shows "\<exists>k. map_of (users db) k = Some (a_user auth)" and "a_userId auth = u_id (a_user auth)"
  using assms
  by (auto simp: requireAuth_def validateToken_def
      split: option.splits if_splits sum.splits prod.splits)

lemma requireAuth_wellFormed:
  assumes "wellFormed db" "requireAuth db req = Inr auth"
  shows "map_of (users db) (a_userId auth) = Some (a_user auth)"
    and "u_role (a_user auth) \<in> set UserRole"
proof -
  from requireAuth_context [OF assms(2)] obtain k
    where k: "map_of (users db) k = Some (a_user auth)"
      and i: "a_userId auth = u_id (a_user auth)" by blast
  from wellFormed_user [OF assms(1) k] i k
  show "map_of (users db) (a_userId auth) = Some (a_user auth)"
    and "u_role (a_user auth) \<in> set UserRole" by simp_all
qed

lemma withAuth_denied: "requireAuth db req = Inl r \<Longrightarrow> withAuth db req h = (r, db)"
  by (simp add: withAuth_def)

lemma withAuth_granted: "requireAuth db req = Inr auth \<Longrightarrow> withAuth db req h = h auth"
  by (simp add: withAuth_def)

lemma hasPermission_manage_users:
  assumes "u_role usr \<in> set UserRole"
  shows "hasPermission usr ''manage:users'' = Inr (u_role usr = ''admin'')"
proof -
  from assms consider "u_role usr = ''admin''" | "u_role usr = ''member''"
    | "u_role usr = ''viewer''"
    by (auto simp: UserRole_def)
  then show ?thesis
    by cases
      (simp_all add: hasPermission_def orEmptyArray_def PERMISSIONS_def PERMISSIONS_own_def)
qed

lemma withPermission_manage_users:
  assumes "u_role (a_user auth) \<in> set UserRole"
  shows "withPermission ''manage:users'' db auth handled =
     (if u_role (a_user auth) = ''admin'' then handled
      else (failure 403 ''FORBIDDEN'' ''Permission denied: manage:users'', db))"
  using hasPermission_manage_users [OF assms]
  by (simp add: withPermission_def requirePermission_def)

lemma withPermission_cases:
  "withPermission permission db auth handled = handled \<or>
   (\<exists>r. withPermission permission db auth handled = (r, db) \<and> res_status r \<in> {403, 500})"
  by (auto simp: withPermission_def requirePermission_def errorHandler_def failure_def
      split: sum.splits MiddlewareResult.splits)

lemma update_entry:
  "distinct (map fst al) \<Longrightarrow> (k', v') \<in> set (AList.update k v al) \<Longrightarrow>
     (k' = k \<and> v' = v) \<or> ((k', v') \<in> set al \<and> k' \<noteq> k)"
  by (induction al) (auto split: if_splits simp: rev_image_eqI)

lemma updateUserSchema_role:
  assumes "updateUserSchema env (BodyObject obj) = Some input" and "obj ''role'' \<noteq> None"
  shows "\<exists>r. uu_role input = Some r \<and> obj ''role'' = Some (JString r) \<and> r \<in> set UserRole"
  using assms
  by (auto simp: updateUserSchema_def zOptional_def zEnum_def UserRole_def
      split: option.splits prod.splits Json.splits if_splits)

section \<open>Every route settles\<close>

lemma settled_getProjects: "settled db (getProjects db auth)"
  by (simp add: settled_def getProjects_def Let_def success_def)

lemma settled_getProject: "settled db (getProject db auth req)"
  by (simp add: settled_def getProject_def Let_def success_def failure_def)

lemma settled_postProject: "settled db (postProject env db auth req)"
  by (simp add: settled_def postProject_def Let_def success_def failure_def split: option.splits)

lemma settled_putProject: "settled db (putProject env db auth req)"
  by (simp add: settled_def putProject_def Let_def success_def failure_def split: option.splits)

lemma settled_deleteProject: "settled db (deleteProject env db auth req)"
  by (simp add: settled_def deleteProject_def Let_def success_def failure_def)

lemma settled_getUsers: "settled db (getUsers db)"
  by (simp add: settled_def getUsers_def success_def)

lemma settled_getMe: "settled db (getMe db auth)"
  by (simp add: settled_def getMe_def success_def)

lemma settled_getUser: "settled db (getUser db req)"
  by (simp add: settled_def getUser_def success_def failure_def split: option.splits)

lemma settled_postUser: "settled db (postUser env db req)"
  by (simp add: settled_def postUser_def Let_def success_def failure_def split: option.splits)

lemma settled_putUser: "settled db (putUser env db auth req)"
  by (simp add: settled_def putUser_def Let_def success_def failure_def split: option.splits)

lemma settled_deleteUser: "settled db (deleteUser db auth req)"
  by (simp add: settled_def deleteUser_def Let_def success_def failure_def split: option.splits)

lemma settled_withPermission:
  "settled db handled \<Longrightarrow> settled db (withPermission permission db auth handled)"
  using withPermission_cases [of permission db auth handled]
  by (auto simp: settled_def)

lemma settled_withAuth:
  assumes "\<And>auth. settled db (h auth)"
  shows "settled db (withAuth db req h)"
proof (cases "requireAuth db req")
  case (Inl r)
  then show ?thesis
    by (simp add: withAuth_denied settled_def requireAuth_denied_body)
next
  case (Inr auth)
  then show ?thesis using assms by (simp add: withAuth_granted)
qed

lemma settled_handle: "settled db (handle env db route req)"
  by (cases route)
    (simp_all add: settled_withAuth settled_withPermission settled_getProjects
      settled_getProject settled_postProject settled_putProject settled_deleteProject
      settled_getUsers settled_getMe settled_getUser settled_postUser settled_putUser
      settled_deleteUser)

section \<open>Every route keeps the store well-formed\<close>

lemma list_all_update:
  "list_all P al \<Longrightarrow> P (k, v) \<Longrightarrow> list_all P (AList.update k v al)"
  by (induction al) auto

lemma list_all_delete: "list_all P al \<Longrightarrow> list_all P (AList.delete k al)"
  by (induction al) auto

lemma createUserSchema_role:
  "createUserSchema env b = Some input \<Longrightarrow> cu_role input \<in> set UserRole"
  by (auto simp: createUserSchema_def zOptional_def zEnum_def UserRole_def
      split: Body.splits option.splits prod.splits Json.splits if_splits)

lemma updateUserSchema_role_enum:
  "updateUserSchema env b = Some input \<Longrightarrow> uu_role input = Some r \<Longrightarrow> r \<in> set UserRole"
  by (auto simp: updateUserSchema_def zOptional_def zEnum_def UserRole_def
      split: Body.splits option.splits prod.splits Json.splits if_splits)

lemma wellFormed_project:
  "wellFormed db \<Longrightarrow> map_of (projects db) k = Some p \<Longrightarrow> p_id p = k"
  by (auto simp: wellFormed_def list_all_iff dest!: map_of_SomeD)

lemma wellFormed_projects_update:
  "wellFormed db \<Longrightarrow> p_id p = k \<Longrightarrow>
     wellFormed (db\<lparr>projects := AList.update k p (projects db)\<rparr>)"
  by (simp add: wellFormed_def distinct_update list_all_update)

lemma wellFormed_users_update:
  "wellFormed db \<Longrightarrow> u_id usr = k \<Longrightarrow> u_role usr \<in> set UserRole \<Longrightarrow>
     wellFormed (db\<lparr>users := AList.update k usr (users db)\<rparr>)"
  by (simp add: wellFormed_def distinct_update list_all_update)

lemma wellFormed_users_delete:
  "wellFormed db \<Longrightarrow> wellFormed (db\<lparr>users := AList.delete k (users db)\<rparr>)"
  by (simp add: wellFormed_def distinct_delete list_all_delete)

lemma wellFormed_postProject:
  "wellFormed db \<Longrightarrow> wellFormed (snd (postProject env db auth req))"
  by (simp add: postProject_def Let_def wellFormed_projects_update split: option.splits)

lemma wellFormed_putProject:
  "wellFormed db \<Longrightarrow> wellFormed (snd (putProject env db auth req))"
  by (auto simp: putProject_def Let_def wellFormed_projects_update wellFormed_project
      split: option.splits)

lemma wellFormed_deleteProject:
  "wellFormed db \<Longrightarrow> wellFormed (snd (deleteProject env db auth req))"
  by (auto simp: deleteProject_def Let_def wellFormed_projects_update wellFormed_project)

lemma wellFormed_postUser:
  assumes "wellFormed db"
  shows "wellFormed (snd (postUser env db req))"
proof (cases "createUserSchema env (req_body req)")
  case None
  with assms show ?thesis by (simp add: postUser_def)
next
  case (Some input)
  from createUserSchema_role [OF Some]
  have "(if cu_role input = [] then ''member'' else cu_role input) \<in> set UserRole"
    by (simp add: UserRole_def)
  with assms Some show ?thesis
    by (simp add: postUser_def Let_def wellFormed_users_update)
qed

lemma wellFormed_putUser:
  assumes "wellFormed db"
  shows "wellFormed (snd (putUser env db auth req))"
proof (cases "map_of (users db) (req_params_id req)")
  case None
  with assms show ?thesis by (simp add: putUser_def)
next
  case (Some usr)
  note usr = wellFormed_user [OF assms Some]
  show ?thesis
  proof (cases "updateUserSchema env (req_body req)")
    case None
    with assms Some show ?thesis by (simp add: putUser_def Let_def)
  next
    case input: (Some input)
    have "(case uu_role input of None \<Rightarrow> u_role usr | Some r \<Rightarrow> r) \<in> set UserRole"
      using usr updateUserSchema_role_enum [OF input] by (cases "uu_role input") simp_all
    with assms Some input usr show ?thesis
      by (simp add: putUser_def Let_def wellFormed_users_update)
  qed
qed

lemma wellFormed_deleteUser:
  "wellFormed db \<Longrightarrow> wellFormed (snd (deleteUser db auth req))"
  by (simp add: deleteUser_def Let_def wellFormed_users_delete split: option.splits)

lemma wellFormed_withAuth:
  assumes "wellFormed db" "\<And>auth. wellFormed (snd (h auth))"
  shows "wellFormed (snd (withAuth db req h))"
  using assms by (simp add: withAuth_def split: sum.splits)

lemma wellFormed_withPermission:
  assumes "wellFormed db" "wellFormed (snd handled)"
  shows "wellFormed (snd (withPermission permission db auth handled))"
  using assms withPermission_cases [of permission db auth handled] by auto

lemma wellFormed_handle:
  assumes "wellFormed db"
  shows "wellFormed (snd (handle env db route req))"
  using assms
  by (cases route)
    (simp_all add: wellFormed_withAuth wellFormed_withPermission wellFormed_postProject
      wellFormed_putProject wellFormed_deleteProject wellFormed_postUser wellFormed_putUser
      wellFormed_deleteUser getProjects_def getProject_def getUsers_def getMe_def getUser_def
      Let_def split: option.splits)

section \<open>Reading projects\<close>

lemma getProject_deleted:
  assumes "map_of (projects db) (req_params_id req) = Some p" and "p_status p = ''deleted''"
  shows "res_status (fst (handle env db GET_projects_id req)) \<in> {401, 404} \<and>
         snd (handle env db GET_projects_id req) = db \<and>
         (\<forall>auth. requireAuth db req = Inr auth \<longrightarrow>
            handle env db GET_projects_id req =
              (failure 404 ''NOT_FOUND'' ''Project not found'', db))"
proof (cases "requireAuth db req")
  case (Inl r)
  then show ?thesis using requireAuth_denied_body [OF Inl] by (simp add: withAuth_denied)
next
  case (Inr auth)
  then show ?thesis using assms
    by (simp add: withAuth_granted getProject_def failure_def)
qed

lemma getProjects_listed:
  assumes "res_body (fst (handle env db GET_projects req)) = ProjectList found"
    and "p \<in> set found"
  shows "p_status p \<noteq> ''deleted'' \<and> p \<in> snd ` set (projects db)"
proof (cases "requireAuth db req")
  case (Inl r)
  with assms(1) requireAuth_denied_body [OF Inl] show ?thesis
    by (auto simp: withAuth_denied)
next
  case (Inr auth)
  with assms show ?thesis
    by (auto simp: withAuth_granted getProjects_def Let_def success_def split: if_splits)
qed

section \<open>Claims about the routes\<close>

text \<open>
  C2. Ownership policy on projects. For every authenticated request to update
  (\<open>PUT /api/projects/:id\<close>) or delete (\<open>DELETE /api/projects/:id\<close>) a project that
  exists and is not deleted: the request passes the ownership check exactly when the
  requester's identity id is the project's \<open>ownerId\<close> or the requester's role is \<open>admin\<close>.
  When it passes, the delete succeeds and the update answers 200 (400 when the body does
  not validate); in every other case the answer is 403 Forbidden and the store, so the
  project, is as before.
\<close>

theorem project_ownership_policy:
  assumes "requireAuth db req = Inr auth"
    and "map_of (projects db) (req_params_id req) = Some project"
    and "p_status project \<noteq> ''deleted''"
  shows "(p_ownerId project = a_userId auth \<or> u_role (a_user auth) = ''admin'' \<longrightarrow>
            res_status (fst (handle env db PUT_projects_id req)) \<in> {200, 400} \<and>
            (updateProjectSchema (req_body req) \<noteq> None \<longrightarrow>
               res_status (fst (handle env db PUT_projects_id req)) = 200) \<and>
            handle env db DELETE_projects_id req =
              (success 200 (Deleted True),
               db\<lparr>projects := AList.update (req_params_id req)
                   (project\<lparr>p_status := ''deleted'', p_updatedAt := e_now env\<rparr>)
                   (projects db)\<rparr>)) \<and>
         (\<not> (p_ownerId project = a_userId auth \<or> u_role (a_user auth) = ''admin'') \<longrightarrow>
            handle env db PUT_projects_id req =
              (failure 403 ''FORBIDDEN'' ''Only project owners can update projects'', db) \<and>
            handle env db DELETE_projects_id req =
              (failure 403 ''FORBIDDEN'' ''Only project owners can delete projects'', db))"
proof -
  have put: "handle env db PUT_projects_id req = putProject env db auth req"
    using assms(1) by (simp add: withAuth_granted)
  have del: "handle env db DELETE_projects_id req = deleteProject env db auth req"
    using assms(1) by (simp add: withAuth_granted)
  show ?thesis
    unfolding put del using assms(2,3)
    by (auto simp: putProject_def deleteProject_def Let_def failure_def success_def
        split: option.splits)
qed

text \<open>
  C3. Self-delete protection. For every authenticated request to
  \<open>DELETE /api/users/:id\<close> whose target id is the requester's own identity id, the answer
  is 403 Forbidden and the target user remains in the store, for every role: an admin is
  stopped by the handler's own check, a member or a viewer by the permission
  \<open>manage:users\<close> before the handler. The store is well-formed (an entry's key is its
  user's id, roles are of the enumeration), as the store of the program always is.
\<close>

theorem self_delete_denied:
  assumes "wellFormed db"
    and "requireAuth db req = Inr auth"
    and "req_params_id req = a_userId auth"
  shows "res_status (fst (handle env db DELETE_users_id req)) = 403 \<and>
         snd (handle env db DELETE_users_id req) = db \<and>
         map_of (users (snd (handle env db DELETE_users_id req))) (a_userId auth) =
           Some (a_user auth) \<and>
         (u_role (a_user auth) = ''admin'' \<longrightarrow>
            fst (handle env db DELETE_users_id req) =
              failure 403 ''FORBIDDEN'' ''Cannot delete your own account'') \<and>
         (u_role (a_user auth) \<noteq> ''admin'' \<longrightarrow>
            fst (handle env db DELETE_users_id req) =
              failure 403 ''FORBIDDEN'' ''Permission denied: manage:users'')"
proof -
  note wf = requireAuth_wellFormed [OF assms(1,2)]
  have h: "handle env db DELETE_users_id req =
      (if u_role (a_user auth) = ''admin'' then deleteUser db auth req
       else (failure 403 ''FORBIDDEN'' ''Permission denied: manage:users'', db))"
    using assms(2) wf(2) by (simp add: withAuth_granted withPermission_manage_users)
  have d: "deleteUser db auth req =
      (failure 403 ''FORBIDDEN'' ''Cannot delete your own account'', db)"
    using assms(3) wf(1) by (simp add: deleteUser_def)
  show ?thesis unfolding h d using wf(1) by (simp add: failure_def)
qed

text \<open>
  C4. Role-escalation rule. For every authenticated request to \<open>PUT /api/users/:id\<close> on
  an existing user, by the target or by an admin, whose body validates and has a \<open>role\<close>
  field: a requester who is not an admin is answered 403 Forbidden and the store is as
  before, also when the requester updates their own identity; for an admin the answer is
  200 and the stored user carries the role of the body.
\<close>

theorem role_escalation_rule:
  assumes "requireAuth db req = Inr auth"
    and "map_of (users db) (req_params_id req) = Some target"
    and "a_userId auth = req_params_id req \<or> u_role (a_user auth) = ''admin''"
    and "req_body req = BodyObject obj"
    and "obj ''role'' \<noteq> None"
    and "updateUserSchema env (req_body req) = Some input"
  shows "(u_role (a_user auth) \<noteq> ''admin'' \<longrightarrow>
            handle env db PUT_users_id req =
              (failure 403 ''FORBIDDEN'' ''Only admins can change user roles'', db)) \<and>
         (u_role (a_user auth) = ''admin'' \<longrightarrow>
            res_status (fst (handle env db PUT_users_id req)) = 200 \<and>
            (\<exists>updated. res_body (fst (handle env db PUT_users_id req)) = UserData updated \<and>
               map_of (users (snd (handle env db PUT_users_id req))) (req_params_id req) =
                 Some updated \<and>
               obj ''role'' = Some (JString (u_role updated)) \<and>
               u_id updated = u_id target \<and> u_email updated = u_email target))"
proof -
  from updateUserSchema_role assms(4,5,6) obtain r
    where r: "uu_role input = Some r" "obj ''role'' = Some (JString r)" "r \<in> set UserRole"
    by metis
  then have ne: "r \<noteq> []" by (auto simp: UserRole_def)
  have put: "handle env db PUT_users_id req = putUser env db auth req"
    using assms(1) by (simp add: withAuth_granted)
  show ?thesis
    unfolding put using assms(2,3,6) r(1,2) ne
    by (auto simp: putUser_def Let_def failure_def success_def update_conv)
qed

text \<open>
  C8. Atomicity on denial and error. For every request to a route of the users or the
  projects router that is answered 401, 403, 404, 400 or 409, the store after the request
  is the store before it. More: the store differs only after an answer 200 or 201.
\<close>

theorem failure_leaves_store_unchanged:
  "(res_status (fst (handle env db route req)) \<in> {401, 403, 404, 400, 409} \<longrightarrow>
      snd (handle env db route req) = db) \<and>
   (snd (handle env db route req) \<noteq> db \<longrightarrow>
      res_status (fst (handle env db route req)) \<in> {200, 201})"
  using settled_handle [of db env route req] by (auto simp: settled_def)

text \<open>
  C9. Soft delete. A successful \<open>DELETE /api/projects/:id\<close> sets the project's status to
  \<open>deleted\<close> and keeps the record under its key (the keys of the store are as before).
  After it, \<open>GET /api/projects/:id\<close> for that id answers 404 Not Found to every
  authenticated requester, and the list of \<open>GET /api/projects\<close> holds no project with
  status \<open>deleted\<close> and no project with that id, for every requester, admin or not. In
  any store \<open>s\<close>, a project whose status is \<open>deleted\<close> is returned by neither read
  route.
\<close>

theorem soft_delete_visibility:
  assumes "requireAuth db req = Inr auth"
    and "map_of (projects db) (req_params_id req) = Some project"
    and "p_status project \<noteq> ''deleted''"
    and "p_ownerId project = a_userId auth \<or> u_role (a_user auth) = ''admin''"
  shows "(\<exists>db'. handle env db DELETE_projects_id req = (success 200 (Deleted True), db') \<and>
           map_of (projects db') (req_params_id req) =
             Some (project\<lparr>p_status := ''deleted'', p_updatedAt := e_now env\<rparr>) \<and>
           map fst (projects db') = map fst (projects db) \<and>
           users db' = users db \<and>
           (\<forall>auth'. req_params_id req' = req_params_id req \<and> requireAuth db' req' = Inr auth' \<longrightarrow>
              handle env' db' GET_projects_id req' =
                (failure 404 ''NOT_FOUND'' ''Project not found'', db')) \<and>
           (\<forall>found. res_body (fst (handle env' db' GET_projects req')) = ProjectList found \<longrightarrow>
              (\<forall>p \<in> set found. p_status p \<noteq> ''deleted'' \<and>
                 (wellFormed db \<longrightarrow> p_id p \<noteq> req_params_id req)))) \<and>
         (map_of (projects s) (req_params_id req') = Some gone \<and> p_status gone = ''deleted'' \<longrightarrow>
           res_status (fst (handle env' s GET_projects_id req')) \<in> {401, 404}) \<and>
         (res_body (fst (handle env' s GET_projects req')) = ProjectList found \<longrightarrow>
           (\<forall>p \<in> set found. p_status p \<noteq> ''deleted''))"
proof (intro conjI)
  let ?ident = "req_params_id req"
  let ?gone = "project\<lparr>p_status := ''deleted'', p_updatedAt := e_now env\<rparr>"
  let ?db' = "db\<lparr>projects := AList.update ?ident ?gone (projects db)\<rparr>"
  have del: "handle env db DELETE_projects_id req = (success 200 (Deleted True), ?db')"
    using assms by (auto simp: withAuth_granted deleteProject_def Let_def)
  have stored: "map_of (projects ?db') ?ident = Some ?gone"
    by (simp add: update_conv')
  have "?ident \<in> fst ` set (projects db)"
    using assms(2) by (metis map_of_eq_None_iff option.distinct(1))
  then have keys: "map fst (projects ?db') = map fst (projects db)"
    by (simp add: update_keys)
  have byId: "handle env' ?db' GET_projects_id req' =
      (failure 404 ''NOT_FOUND'' ''Project not found'', ?db')"
    if "req_params_id req' = ?ident \<and> requireAuth ?db' req' = Inr auth'" for auth'
  proof -
    from that stored have "map_of (projects ?db') (req_params_id req') = Some ?gone" by simp
    from getProject_deleted [OF this, of env'] that show ?thesis by simp
  qed
  have listed: "p_status p \<noteq> ''deleted'' \<and> (wellFormed db \<longrightarrow> p_id p \<noteq> ?ident)"
    if f: "res_body (fst (handle env' ?db' GET_projects req')) = ProjectList found"
      and p: "p \<in> set found" for found p
  proof -
    from getProjects_listed [OF f p]
    have st: "p_status p \<noteq> ''deleted''" and "p \<in> snd ` set (projects ?db')" by simp_all
    then obtain k where k: "(k, p) \<in> set (AList.update ?ident ?gone (projects db))" by auto
    have "p_id p \<noteq> ?ident" if wf: "wellFormed db"
    proof -
      from wf have "distinct (map fst (projects db))" by (simp add: wellFormed_def)
      from update_entry [OF this k] st have "(k, p) \<in> set (projects db)" "k \<noteq> ?ident"
        by auto
      with wf show ?thesis by (auto simp: wellFormed_def list_all_iff)
    qed
    with st show ?thesis by simp
  qed
  from del stored keys byId listed
  show "\<exists>db'. handle env db DELETE_projects_id req = (success 200 (Deleted True), db') \<and>
           map_of (projects db') (req_params_id req) =
             Some (project\<lparr>p_status := ''deleted'', p_updatedAt := e_now env\<rparr>) \<and>
           map fst (projects db') = map fst (projects db) \<and>
           users db' = users db \<and>
           (\<forall>auth'. req_params_id req' = req_params_id req \<and> requireAuth db' req' = Inr auth' \<longrightarrow>
              handle env' db' GET_projects_id req' =
                (failure 404 ''NOT_FOUND'' ''Project not found'', db')) \<and>
           (\<forall>found. res_body (fst (handle env' db' GET_projects req')) = ProjectList found \<longrightarrow>
              (\<forall>p \<in> set found. p_status p \<noteq> ''deleted'' \<and>
                 (wellFormed db \<longrightarrow> p_id p \<noteq> req_params_id req)))"
    by (intro exI [of _ ?db']) simp
  show "map_of (projects s) (req_params_id req') = Some gone \<and> p_status gone = ''deleted'' \<longrightarrow>
           res_status (fst (handle env' s GET_projects_id req')) \<in> {401, 404}"
    using getProject_deleted [of s req' gone env'] by blast
  show "res_body (fst (handle env' s GET_projects req')) = ProjectList found \<longrightarrow>
           (\<forall>p \<in> set found. p_status p \<noteq> ''deleted'')"
    using getProjects_listed [of env' s req' found] by blast
qed


section \<open>Worked examples on the seed data\<close>

lemma requireAuth_alice:
  "requireAuth seedDatabase (exampleRequest ''session_usr_alice_s0'' ident b) =
     Inr \<lparr>a_userId = ''usr_alice'', a_user = alice, a_sessionId = ''s0''\<rparr>"
  by (simp add: requireAuth_def exampleRequest_def validateToken_def parseToken_def
      TOKEN_PREFIX_def seedDatabase_def alice_def)

lemma requireAuth_bob:
  "requireAuth seedDatabase (exampleRequest ''session_usr_bob_s1'' ident b) =
     Inr \<lparr>a_userId = ''usr_bob'', a_user = bob, a_sessionId = ''s1''\<rparr>"
  by (simp add: requireAuth_def exampleRequest_def validateToken_def parseToken_def
      TOKEN_PREFIX_def seedDatabase_def bob_def)


lemma seed_roles:
  "u_role alice = ''admin''" "u_role bob = ''member''" "u_role carol = ''viewer''"
  by (simp_all add: alice_def bob_def carol_def seedDatabase_def)

lemma seed_users:
  "map_of (users seedDatabase) ''usr_alice'' = Some alice"
  "map_of (users seedDatabase) ''usr_bob'' = Some bob"
  "map_of (users seedDatabase) ''usr_carol'' = Some carol"
  by (simp_all add: alice_def bob_def carol_def seedDatabase_def)

lemma seed_projects:
  "map_of (projects seedDatabase) ''prj_website'' = Some website"
  "map_of (projects seedDatabase) ''prj_mobile'' = Some mobile"
  "p_status website = ''active''"
  "p_status mobile = ''active''"
  "p_ownerId website = ''usr_alice''"
  "p_ownerId mobile = ''usr_bob''"
  by (simp_all add: seedDatabase_def website_def mobile_def)

lemma exampleRequest_sel:
  "req_params_id (exampleRequest token ident b) = ident"
  "req_body (exampleRequest token ident b) = b"
  by (simp_all add: exampleRequest_def)

theorem project_ownership_policy_witness:
  "requireAuth seedDatabase (exampleRequest ''session_usr_bob_s1'' ''prj_website'' BodyOther) =
     Inr \<lparr>a_userId = ''usr_bob'', a_user = bob, a_sessionId = ''s1''\<rparr> \<and>
   map_of (projects seedDatabase) ''prj_website'' = Some website \<and>
   p_status website \<noteq> ''deleted'' \<and>
   handle exampleEnv seedDatabase DELETE_projects_id
       (exampleRequest ''session_usr_bob_s1'' ''prj_website'' BodyOther) =
     (failure 403 ''FORBIDDEN'' ''Only project owners can delete projects'', seedDatabase) \<and>
   handle exampleEnv seedDatabase PUT_projects_id
       (exampleRequest ''session_usr_bob_s1'' ''prj_website'' BodyOther) =
     (failure 403 ''FORBIDDEN'' ''Only project owners can update projects'', seedDatabase) \<and>
   res_status (fst (handle exampleEnv seedDatabase DELETE_projects_id
       (exampleRequest ''session_usr_bob_s1'' ''prj_mobile'' BodyOther))) = 200 \<and>
   res_status (fst (handle exampleEnv seedDatabase DELETE_projects_id
       (exampleRequest ''session_usr_alice_s0'' ''prj_mobile'' BodyOther))) = 200"
proof -
  let ?bob = "\<lparr>a_userId = ''usr_bob'', a_user = bob, a_sessionId = ''s1''\<rparr>"
  let ?alice = "\<lparr>a_userId = ''usr_alice'', a_user = alice, a_sessionId = ''s0''\<rparr>"
  let ?r1 = "exampleRequest ''session_usr_bob_s1'' ''prj_website'' BodyOther"
  let ?r2 = "exampleRequest ''session_usr_bob_s1'' ''prj_mobile'' BodyOther"
  let ?r3 = "exampleRequest ''session_usr_alice_s0'' ''prj_mobile'' BodyOther"
  have a1: "requireAuth seedDatabase ?r1 = Inr ?bob" by (rule requireAuth_bob)
  have a2: "requireAuth seedDatabase ?r2 = Inr ?bob" by (rule requireAuth_bob)
  have a3: "requireAuth seedDatabase ?r3 = Inr ?alice" by (rule requireAuth_alice)
  have p1: "map_of (projects seedDatabase) (req_params_id ?r1) = Some website"
    by (simp add: exampleRequest_sel seed_projects)
  have p2: "map_of (projects seedDatabase) (req_params_id ?r2) = Some mobile"
    by (simp add: exampleRequest_sel seed_projects)
  have p3: "map_of (projects seedDatabase) (req_params_id ?r3) = Some mobile"
    by (simp add: exampleRequest_sel seed_projects)
  have s1: "p_status website \<noteq> ''deleted''" by (simp add: seed_projects)
  have s2: "p_status mobile \<noteq> ''deleted''" by (simp add: seed_projects)
  from project_ownership_policy [OF a1 p1 s1, of exampleEnv]
  have d1: "handle exampleEnv seedDatabase DELETE_projects_id ?r1 =
      (failure 403 ''FORBIDDEN'' ''Only project owners can delete projects'', seedDatabase)"
    and d2: "handle exampleEnv seedDatabase PUT_projects_id ?r1 =
      (failure 403 ''FORBIDDEN'' ''Only project owners can update projects'', seedDatabase)"
    by (simp_all add: seed_projects seed_roles)
  from project_ownership_policy [OF a2 p2 s2, of exampleEnv]
  have d3: "res_status (fst (handle exampleEnv seedDatabase DELETE_projects_id ?r2)) = 200"
    by (simp add: seed_projects seed_roles success_def)
  from project_ownership_policy [OF a3 p3 s2, of exampleEnv]
  have d4: "res_status (fst (handle exampleEnv seedDatabase DELETE_projects_id ?r3)) = 200"
    by (simp add: seed_projects seed_roles success_def)
  from a1 s1 d1 d2 d3 d4 show ?thesis
    by (simp only: seed_projects simp_thms)
qed

theorem self_delete_denied_witness:
  "wellFormed seedDatabase \<and>
   requireAuth seedDatabase (exampleRequest ''session_usr_alice_s0'' ''usr_alice'' BodyOther) =
     Inr \<lparr>a_userId = ''usr_alice'', a_user = alice, a_sessionId = ''s0''\<rparr> \<and>
   handle exampleEnv seedDatabase DELETE_users_id
       (exampleRequest ''session_usr_alice_s0'' ''usr_alice'' BodyOther) =
     (failure 403 ''FORBIDDEN'' ''Cannot delete your own account'', seedDatabase) \<and>
   requireAuth seedDatabase (exampleRequest ''session_usr_bob_s1'' ''usr_bob'' BodyOther) =
     Inr \<lparr>a_userId = ''usr_bob'', a_user = bob, a_sessionId = ''s1''\<rparr> \<and>
   handle exampleEnv seedDatabase DELETE_users_id
       (exampleRequest ''session_usr_bob_s1'' ''usr_bob'' BodyOther) =
     (failure 403 ''FORBIDDEN'' ''Permission denied: manage:users'', seedDatabase)"
proof -
  let ?alice = "\<lparr>a_userId = ''usr_alice'', a_user = alice, a_sessionId = ''s0''\<rparr>"
  let ?bob = "\<lparr>a_userId = ''usr_bob'', a_user = bob, a_sessionId = ''s1''\<rparr>"
  let ?r1 = "exampleRequest ''session_usr_alice_s0'' ''usr_alice'' BodyOther"
  let ?r2 = "exampleRequest ''session_usr_bob_s1'' ''usr_bob'' BodyOther"
  have a1: "requireAuth seedDatabase ?r1 = Inr ?alice" by (rule requireAuth_alice)
  have a2: "requireAuth seedDatabase ?r2 = Inr ?bob" by (rule requireAuth_bob)
  have i1: "req_params_id ?r1 = a_userId ?alice" by (simp add: exampleRequest_sel)
  have i2: "req_params_id ?r2 = a_userId ?bob" by (simp add: exampleRequest_sel)
  from self_delete_denied [OF wellFormed_seedDatabase a1 i1, of exampleEnv]
  have d1: "handle exampleEnv seedDatabase DELETE_users_id ?r1 =
      (failure 403 ''FORBIDDEN'' ''Cannot delete your own account'', seedDatabase)"
    by (simp add: seed_roles prod_eq_iff)
  from self_delete_denied [OF wellFormed_seedDatabase a2 i2, of exampleEnv]
  have d2: "handle exampleEnv seedDatabase DELETE_users_id ?r2 =
      (failure 403 ''FORBIDDEN'' ''Permission denied: manage:users'', seedDatabase)"
    by (simp add: seed_roles prod_eq_iff)
  from wellFormed_seedDatabase a1 a2 d1 d2 show ?thesis by (simp only: simp_thms)
qed

theorem role_escalation_rule_witness:
  "requireAuth seedDatabase
       (exampleRequest ''session_usr_bob_s1'' ''usr_bob''
          (BodyObject (Map.empty(''role'' \<mapsto> JString ''admin'')))) =
     Inr \<lparr>a_userId = ''usr_bob'', a_user = bob, a_sessionId = ''s1''\<rparr> \<and>
   map_of (users seedDatabase) ''usr_bob'' = Some bob \<and>
   updateUserSchema exampleEnv (BodyObject (Map.empty(''role'' \<mapsto> JString ''admin''))) =
     Some \<lparr>uu_name = None, uu_role = Some ''admin'', uu_avatarUrl = Absent\<rparr> \<and>
   handle exampleEnv seedDatabase PUT_users_id
       (exampleRequest ''session_usr_bob_s1'' ''usr_bob''
          (BodyObject (Map.empty(''role'' \<mapsto> JString ''admin'')))) =
     (failure 403 ''FORBIDDEN'' ''Only admins can change user roles'', seedDatabase) \<and>
   res_status (fst (handle exampleEnv seedDatabase PUT_users_id
       (exampleRequest ''session_usr_alice_s0'' ''usr_bob''
          (BodyObject (Map.empty(''role'' \<mapsto> JString ''admin'')))))) = 200"
proof -
  let ?alice = "\<lparr>a_userId = ''usr_alice'', a_user = alice, a_sessionId = ''s0''\<rparr>"
  let ?bob = "\<lparr>a_userId = ''usr_bob'', a_user = bob, a_sessionId = ''s1''\<rparr>"
  let ?obj = "Map.empty(''role'' \<mapsto> JString ''admin'')"
  let ?input = "\<lparr>uu_name = None, uu_role = Some ''admin'', uu_avatarUrl = Absent\<rparr>"
  let ?r1 = "exampleRequest ''session_usr_bob_s1'' ''usr_bob'' (BodyObject ?obj)"
  let ?r2 = "exampleRequest ''session_usr_alice_s0'' ''usr_bob'' (BodyObject ?obj)"
  have a1: "requireAuth seedDatabase ?r1 = Inr ?bob" by (rule requireAuth_bob)
  have a2: "requireAuth seedDatabase ?r2 = Inr ?alice" by (rule requireAuth_alice)
  have t1: "map_of (users seedDatabase) (req_params_id ?r1) = Some bob"
    by (simp add: exampleRequest_sel seed_users)
  have t2: "map_of (users seedDatabase) (req_params_id ?r2) = Some bob"
    by (simp add: exampleRequest_sel seed_users)
  have w1: "a_userId ?bob = req_params_id ?r1 \<or> u_role (a_user ?bob) = ''admin''"
    by (simp add: exampleRequest_sel)
  have w2: "a_userId ?alice = req_params_id ?r2 \<or> u_role (a_user ?alice) = ''admin''"
    by (simp add: seed_roles)
  have b1: "req_body ?r1 = BodyObject ?obj" by (simp add: exampleRequest_sel)
  have b2: "req_body ?r2 = BodyObject ?obj" by (simp add: exampleRequest_sel)
  have f: "?obj ''role'' \<noteq> None" by simp
  have v: "updateUserSchema exampleEnv (BodyObject ?obj) = Some ?input"
    by (simp add: updateUserSchema_def zOptional_def zEnum_def zAvatarUrl_def)
  have v1: "updateUserSchema exampleEnv (req_body ?r1) = Some ?input"
    unfolding b1 by (rule v)
  have v2: "updateUserSchema exampleEnv (req_body ?r2) = Some ?input"
    unfolding b2 by (rule v)
  from role_escalation_rule [OF a1 t1 w1 b1 f v1]
  have d1: "handle exampleEnv seedDatabase PUT_users_id ?r1 =
      (failure 403 ''FORBIDDEN'' ''Only admins can change user roles'', seedDatabase)"
    by (simp add: seed_roles)
  from role_escalation_rule [OF a2 t2 w2 b2 f v2]
  have d2: "res_status (fst (handle exampleEnv seedDatabase PUT_users_id ?r2)) = 200"
    by (simp add: seed_roles)
  from a1 v d1 d2 show ?thesis by (simp only: seed_users simp_thms)
qed


lemma requireAuth_users:
  assumes "users db' = users db"
  shows "requireAuth db' req = requireAuth db req"
  unfolding requireAuth_def validateToken_def assms by (rule refl)

theorem failure_leaves_store_unchanged_witness:
  "res_status (fst (handle exampleEnv seedDatabase GET_users
      \<lparr>req_authorization = None, req_params_id = [], req_body = BodyOther\<rparr>)) = 401 \<and>
   snd (handle exampleEnv seedDatabase GET_users
      \<lparr>req_authorization = None, req_params_id = [], req_body = BodyOther\<rparr>) = seedDatabase \<and>
   res_status (fst (handle exampleEnv seedDatabase DELETE_projects_id
      (exampleRequest ''session_usr_bob_s1'' ''prj_website'' BodyOther))) = 403 \<and>
   snd (handle exampleEnv seedDatabase DELETE_projects_id
      (exampleRequest ''session_usr_bob_s1'' ''prj_website'' BodyOther)) = seedDatabase \<and>
   res_status (fst (handle exampleEnv seedDatabase PUT_users_id
      (exampleRequest ''session_usr_alice_s0'' ''usr_nobody'' BodyOther))) = 404 \<and>
   snd (handle exampleEnv seedDatabase PUT_users_id
      (exampleRequest ''session_usr_alice_s0'' ''usr_nobody'' BodyOther)) = seedDatabase \<and>
   res_status (fst (handle exampleEnv seedDatabase POST_projects
      (exampleRequest ''session_usr_alice_s0'' [] BodyOther))) = 400 \<and>
   snd (handle exampleEnv seedDatabase POST_projects
      (exampleRequest ''session_usr_alice_s0'' [] BodyOther)) = seedDatabase \<and>
   res_status (fst (handle exampleEnv seedDatabase POST_users
      (exampleRequest ''session_usr_alice_s0'' []
         (BodyObject (Map.empty(''email'' \<mapsto> JString ''bob@acme.com'',
            ''name'' \<mapsto> JString ''Robert'')))))) = 409 \<and>
   snd (handle exampleEnv seedDatabase POST_users
      (exampleRequest ''session_usr_alice_s0'' []
         (BodyObject (Map.empty(''email'' \<mapsto> JString ''bob@acme.com'',
            ''name'' \<mapsto> JString ''Robert''))))) = seedDatabase"
proof -
  let ?alice = "\<lparr>a_userId = ''usr_alice'', a_user = alice, a_sessionId = ''s0''\<rparr>"
  let ?bob = "\<lparr>a_userId = ''usr_bob'', a_user = bob, a_sessionId = ''s1''\<rparr>"
  let ?r1 = "\<lparr>req_authorization = None, req_params_id = [], req_body = BodyOther\<rparr>"
  let ?r2 = "exampleRequest ''session_usr_bob_s1'' ''prj_website'' BodyOther"
  let ?r3 = "exampleRequest ''session_usr_alice_s0'' ''usr_nobody'' BodyOther"
  let ?r4 = "exampleRequest ''session_usr_alice_s0'' [] BodyOther"
  let ?obj = "Map.empty(''email'' \<mapsto> JString ''bob@acme.com'', ''name'' \<mapsto> JString ''Robert'')"
  let ?r5 = "exampleRequest ''session_usr_alice_s0'' [] (BodyObject ?obj)"
  have s1: "res_status (fst (handle exampleEnv seedDatabase GET_users ?r1)) = 401"
    by (simp add: withAuth_def requireAuth_def failure_def)
  have "handle exampleEnv seedDatabase DELETE_projects_id ?r2 =
      deleteProject exampleEnv seedDatabase ?bob ?r2"
    by (simp add: withAuth_granted [OF requireAuth_bob])
  then have s2: "res_status (fst (handle exampleEnv seedDatabase DELETE_projects_id ?r2)) = 403"
    by (simp add: deleteProject_def exampleRequest_sel seed_projects seed_roles failure_def)
  have none: "map_of (users seedDatabase) ''usr_nobody'' = None"
    by (simp add: seedDatabase_def)
  have "handle exampleEnv seedDatabase PUT_users_id ?r3 =
      putUser exampleEnv seedDatabase ?alice ?r3"
    by (simp add: withAuth_granted [OF requireAuth_alice])
  then have s3: "res_status (fst (handle exampleEnv seedDatabase PUT_users_id ?r3)) = 404"
    by (simp add: putUser_def exampleRequest_sel none failure_def)
  have "handle exampleEnv seedDatabase POST_projects ?r4 =
      postProject exampleEnv seedDatabase ?alice ?r4"
    by (simp add: withAuth_granted [OF requireAuth_alice])
  then have s4: "res_status (fst (handle exampleEnv seedDatabase POST_projects ?r4)) = 400"
    by (simp add: postProject_def exampleRequest_sel createProjectSchema_def failure_def)
  have perm: "withPermission ''manage:users'' seedDatabase ?alice h = h" for h
    by (simp add: withPermission_manage_users seed_roles UserRole_def)
  have schema: "createUserSchema exampleEnv (BodyObject ?obj) =
      Some \<lparr>cu_email = ''bob@acme.com'', cu_name = ''Robert'', cu_role = ''member''\<rparr>"
    by (simp add: createUserSchema_def zRequired_def zOptional_def zEmail_def zString_def
        exampleEnv_def)
  have taken: "\<exists>existingUser \<in> set (map snd (users seedDatabase)).
      u_email existingUser = ''bob@acme.com''"
    by (simp add: seedDatabase_def)
  have "handle exampleEnv seedDatabase POST_users ?r5 = postUser exampleEnv seedDatabase ?r5"
    by (simp add: withAuth_granted [OF requireAuth_alice] perm)
  then have s5: "res_status (fst (handle exampleEnv seedDatabase POST_users ?r5)) = 409"
    using taken by (simp add: postUser_def exampleRequest_sel schema failure_def)
  from failure_leaves_store_unchanged [of exampleEnv seedDatabase GET_users ?r1] s1
  have u1: "snd (handle exampleEnv seedDatabase GET_users ?r1) = seedDatabase" by simp
  from failure_leaves_store_unchanged [of exampleEnv seedDatabase DELETE_projects_id ?r2] s2
  have u2: "snd (handle exampleEnv seedDatabase DELETE_projects_id ?r2) = seedDatabase" by simp
  from failure_leaves_store_unchanged [of exampleEnv seedDatabase PUT_users_id ?r3] s3
  have u3: "snd (handle exampleEnv seedDatabase PUT_users_id ?r3) = seedDatabase" by simp
  from failure_leaves_store_unchanged [of exampleEnv seedDatabase POST_projects ?r4] s4
  have u4: "snd (handle exampleEnv seedDatabase POST_projects ?r4) = seedDatabase" by simp
  from failure_leaves_store_unchanged [of exampleEnv seedDatabase POST_users ?r5] s5
  have u5: "snd (handle exampleEnv seedDatabase POST_users ?r5) = seedDatabase" by simp
  from s1 u1 s2 u2 s3 u3 s4 u4 s5 u5 show ?thesis by (intro conjI)
qed

theorem soft_delete_visibility_witness:
  "requireAuth seedDatabase (exampleRequest ''session_usr_bob_s1'' ''prj_mobile'' BodyOther) =
     Inr \<lparr>a_userId = ''usr_bob'', a_user = bob, a_sessionId = ''s1''\<rparr> \<and>
   map_of (projects seedDatabase) ''prj_mobile'' = Some mobile \<and>
   p_status mobile \<noteq> ''deleted'' \<and>
   p_ownerId mobile = ''usr_bob'' \<and>
   fst (handle exampleEnv seedDatabase DELETE_projects_id
          (exampleRequest ''session_usr_bob_s1'' ''prj_mobile'' BodyOther)) =
     success 200 (Deleted True) \<and>
   map_of (projects (snd (handle exampleEnv seedDatabase DELETE_projects_id
          (exampleRequest ''session_usr_bob_s1'' ''prj_mobile'' BodyOther)))) ''prj_mobile'' =
     Some (mobile\<lparr>p_status := ''deleted'', p_updatedAt := e_now exampleEnv\<rparr>) \<and>
   fst (handle exampleEnv
          (snd (handle exampleEnv seedDatabase DELETE_projects_id
             (exampleRequest ''session_usr_bob_s1'' ''prj_mobile'' BodyOther)))
          GET_projects_id (exampleRequest ''session_usr_alice_s0'' ''prj_mobile'' BodyOther)) =
     failure 404 ''NOT_FOUND'' ''Project not found''"
proof -
  let ?bob = "\<lparr>a_userId = ''usr_bob'', a_user = bob, a_sessionId = ''s1''\<rparr>"
  let ?alice = "\<lparr>a_userId = ''usr_alice'', a_user = alice, a_sessionId = ''s0''\<rparr>"
  let ?r = "exampleRequest ''session_usr_bob_s1'' ''prj_mobile'' BodyOther"
  let ?r' = "exampleRequest ''session_usr_alice_s0'' ''prj_mobile'' BodyOther"
  let ?gone = "mobile\<lparr>p_status := ''deleted'', p_updatedAt := e_now exampleEnv\<rparr>"
  have a: "requireAuth seedDatabase ?r = Inr ?bob" by (rule requireAuth_bob)
  have p: "map_of (projects seedDatabase) (req_params_id ?r) = Some mobile"
    by (simp add: exampleRequest_sel seed_projects)
  have s: "p_status mobile \<noteq> ''deleted''" by (simp add: seed_projects)
  have o: "p_ownerId mobile = a_userId ?bob \<or> u_role (a_user ?bob) = ''admin''"
    by (simp add: seed_projects)
  from soft_delete_visibility [OF a p s o, where env = exampleEnv and env' = exampleEnv
      and req' = ?r']
  obtain db' where
    del: "handle exampleEnv seedDatabase DELETE_projects_id ?r = (success 200 (Deleted True), db')"
    and stored: "map_of (projects db') (req_params_id ?r) = Some ?gone"
    and same: "users db' = users seedDatabase"
    and byId: "\<forall>auth'. req_params_id ?r' = req_params_id ?r \<and> requireAuth db' ?r' = Inr auth' \<longrightarrow>
        handle exampleEnv db' GET_projects_id ?r' =
          (failure 404 ''NOT_FOUND'' ''Project not found'', db')"
    by blast
  have "requireAuth db' ?r' = Inr ?alice"
    using requireAuth_users [OF same] requireAuth_alice by simp
  with byId have g: "handle exampleEnv db' GET_projects_id ?r' =
      (failure 404 ''NOT_FOUND'' ''Project not found'', db')"
    by (simp add: exampleRequest_sel)
  from del have sn: "snd (handle exampleEnv seedDatabase DELETE_projects_id ?r) = db'"
    and fs: "fst (handle exampleEnv seedDatabase DELETE_projects_id ?r) =
      success 200 (Deleted True)" by simp_all
  from stored have st: "map_of (projects db') ''prj_mobile'' = Some ?gone"
    by (simp add: exampleRequest_sel)
  from g have gf: "fst (handle exampleEnv db' GET_projects_id ?r') =
      failure 404 ''NOT_FOUND'' ''Project not found''" by simp
  from a s fs st gf show ?thesis
    unfolding sn by (simp only: seed_projects simp_thms)
qed

end
